theory Spec2Isabelle
  imports Main "HOL-Library.Multiset"
begin

section \<open>The chat relay of server.js\<close>

text \<open>
  The server keeps two collections in a document store (Message and Room), a set of
  broadcast groups managed by the transport, and two fields on every connection.
  Each handler of server.js becomes a function from the state before the event to
  the state after it together with the events it emits. A handler is taken as one
  step: what other handlers do while it waits for the store is outside this model.
  Payload fields are strings.
\<close>

subsection \<open>Documents\<close>

text \<open>messageSchema: the document id, roomId, sender, text and timestamp
  (milliseconds since the epoch).\<close>

record message =
  mid :: nat
  roomId :: string
  sender :: string
  msg_text :: string
  timestamp :: int

text \<open>roomSchema. The roomId carries a unique index, so the Room collection is a
  map from roomId to the remaining fields.\<close>

record room =
  participants :: "string list"
  createdAt :: int

text \<open>The two fields a handler sets on the socket object; \<open>None\<close> is undefined.\<close>

record sock =
  sock_roomId :: "string option"
  sock_username :: "string option"

record state =
  messages :: "message list"
  rooms :: "string \<rightharpoonup> room"
  members :: "string \<Rightarrow> string set"
  socks :: "string \<Rightarrow> sock"

text \<open>What a handler reads from outside: the clock, the id the driver gives a new
  document, and whether the store call at a given place of the handler throws.\<close>

record env =
  now :: int
  new_id :: nat
  fails :: "nat \<Rightarrow> bool"

subsection \<open>Outbound events\<close>

datatype event =
    RoomJoined string "string list" "message list"
  | UserJoined string "string list"
  | NewMessage nat string string string int
  | UserTyping string bool
  | RoomChatCleared
  | UserLeft string "string list"
  | ErrorEv string

text \<open>\<open>socket.emit\<close> reaches the connection itself, \<open>io.to(r).emit\<close> every
  connection of group \<open>r\<close>, \<open>socket.to(r).emit\<close> every connection of group
  \<open>r\<close> but the socket.\<close>

datatype target = ToSocket string | ToRoom string | ToRoomExcept string string

fun recipients :: "state \<Rightarrow> target \<Rightarrow> string set" where
  "recipients st (ToSocket s) = {s}"
| "recipients st (ToRoom r) = members st r"
| "recipients st (ToRoomExcept r s) = members st r - {s}"

type_synonym emit = "target \<times> event"

fun is_error :: "emit \<Rightarrow> bool" where
  "is_error (t, ErrorEv m) = True"
| "is_error (t, e) = False"

fun is_new_message :: "emit \<Rightarrow> bool" where
  "is_new_message (t, NewMessage i r s x ts) = True"
| "is_new_message (t, e) = False"

fun is_user_left :: "emit \<Rightarrow> bool" where
  "is_user_left (t, UserLeft u ps) = True"
| "is_user_left (t, e) = False"

subsection \<open>Store calls\<close>

text \<open>A store call throws when the store is unreachable (the flag) or when the
  document fails the schema: a required string path rejects the empty string.\<close>

datatype store_error = StoreError

definition Room_findOne :: "bool \<Rightarrow> string \<Rightarrow> state \<Rightarrow> store_error + room option" where
  "Room_findOne bad rid st = (if bad then Inl StoreError else Inr (rooms st rid))"

definition Room_save :: "bool \<Rightarrow> string \<Rightarrow> room \<Rightarrow> state \<Rightarrow> store_error + state" where
  "Room_save bad rid r st =
     (if bad \<or> rid = [] then Inl StoreError
      else Inr (st\<lparr>rooms := (rooms st)(rid \<mapsto> r)\<rparr>))"

definition Room_deleteOne :: "bool \<Rightarrow> string \<Rightarrow> state \<Rightarrow> store_error + state" where
  "Room_deleteOne bad rid st =
     (if bad then Inl StoreError else Inr (st\<lparr>rooms := (rooms st)(rid := None)\<rparr>))"

definition Message_save :: "bool \<Rightarrow> message \<Rightarrow> state \<Rightarrow> store_error + state" where
  "Message_save bad m st =
     (if bad \<or> roomId m = [] \<or> sender m = [] \<or> msg_text m = [] then Inl StoreError
      else Inr (st\<lparr>messages := messages st @ [m]\<rparr>))"

definition Message_deleteMany :: "bool \<Rightarrow> string \<Rightarrow> state \<Rightarrow> store_error + state" where
  "Message_deleteMany bad rid st =
     (if bad then Inl StoreError
      else Inr (st\<lparr>messages := filter (\<lambda>m. roomId m \<noteq> rid) (messages st)\<rparr>))"

text \<open>\<open>Message.find\<close> builds a query and runs nothing. \<open>sort\<close> and \<open>limit\<close>
  write into the options of that one query: a second \<open>sort\<close> on the same path
  replaces the direction the first one stored. When the query is awaited the store
  filters, orders by the stored direction and then cuts to the stored limit, in that
  order whatever the order of the calls. The handlers sort on the timestamp only, so
  the stored sort is one direction, 1 or -1. Documents of equal timestamp keep the
  order of the collection here; the store promises none among them, and the
  properties below are stated so that they do not depend on it.\<close>

record query =
  q_roomId :: string
  q_sort :: "int option"
  q_limit :: "nat option"

definition Message_find :: "string \<Rightarrow> query" where
  "Message_find rid = \<lparr>q_roomId = rid, q_sort = None, q_limit = None\<rparr>"

definition sort_q :: "int \<Rightarrow> query \<Rightarrow> query" where
  "sort_q d q = q\<lparr>q_sort := Some d\<rparr>"

definition limit_q :: "nat \<Rightarrow> query \<Rightarrow> query" where
  "limit_q n q = q\<lparr>q_limit := Some n\<rparr>"

definition ordered :: "int option \<Rightarrow> message list \<Rightarrow> message list" where
  "ordered d ms =
     (case d of None \<Rightarrow> ms
      | Some k \<Rightarrow> if k < 0 then sort_key (\<lambda>m. - timestamp m) ms
                  else sort_key timestamp ms)"

definition limited :: "nat option \<Rightarrow> message list \<Rightarrow> message list" where
  "limited l ms = (case l of None \<Rightarrow> ms | Some n \<Rightarrow> take n ms)"

definition exec_q :: "bool \<Rightarrow> query \<Rightarrow> state \<Rightarrow> store_error + message list" where
  "exec_q bad q st =
     (if bad then Inl StoreError
      else Inr (limited (q_limit q)
                 (ordered (q_sort q)
                   (filter (\<lambda>m. roomId m = q_roomId q) (messages st)))))"

subsection \<open>Socket handlers\<close>

text \<open>clear-room-chat (lines 49 to 57).\<close>

definition clear_room_chat :: "env \<Rightarrow> string \<Rightarrow> string \<Rightarrow> state \<Rightarrow> state \<times> emit list" where
  "clear_room_chat e sid rid st =
     (case Message_deleteMany (fails e 0) rid st of
        Inl err \<Rightarrow> (st, [(ToSocket sid, ErrorEv ''Failed to clear chat'')])
      | Inr st' \<Rightarrow> (st', [(ToRoom rid, RoomChatCleared)]))"

text \<open>join-room (lines 59 to 102). The store calls are numbered by their place:
  0 the lookup of the Room, 1 its save, 2 the Message query. A throw at place 2
  comes after the Room was saved and the socket was bound.\<close>

definition join_failed :: "string \<Rightarrow> emit list" where
  "join_failed sid = [(ToSocket sid, ErrorEv ''Failed to join room'')]"

definition find_or_create ::
  "env \<Rightarrow> string \<Rightarrow> string \<Rightarrow> room option \<Rightarrow> state \<Rightarrow> store_error + room \<times> state" where
  "find_or_create e rid u found st =
     (case found of
        None \<Rightarrow>
          (let r = \<lparr>participants = [u], createdAt = now e\<rparr>
           in case Room_save (fails e 1) rid r st of
                Inl err \<Rightarrow> Inl err | Inr st' \<Rightarrow> Inr (r, st'))
      | Some r0 \<Rightarrow>
          if \<not> List.member (participants r0) u then
            (let r = r0\<lparr>participants := participants r0 @ [u]\<rparr>
             in case Room_save (fails e 1) rid r st of
                  Inl err \<Rightarrow> Inl err | Inr st' \<Rightarrow> Inr (r, st'))
          else Inr (r0, st))"

definition bind_socket :: "string \<Rightarrow> string \<Rightarrow> string \<Rightarrow> state \<Rightarrow> state" where
  "bind_socket sid rid u st =
     st\<lparr>members := (members st)(rid := insert sid (members st rid)),
        socks := (socks st)(sid := \<lparr>sock_roomId = Some rid, sock_username = Some u\<rparr>)\<rparr>"

definition recent_query :: "string \<Rightarrow> query" where
  "recent_query rid = sort_q 1 (limit_q 50 (sort_q (- 1) (Message_find rid)))"

definition join_room ::
  "env \<Rightarrow> string \<Rightarrow> string \<Rightarrow> string \<Rightarrow> state \<Rightarrow> state \<times> emit list" where
  "join_room e sid rid u st =
     (case Room_findOne (fails e 0) rid st of
        Inl err \<Rightarrow> (st, join_failed sid)
      | Inr found \<Rightarrow>
          (case find_or_create e rid u found st of
             Inl err \<Rightarrow> (st, join_failed sid)
           | Inr (r, st1) \<Rightarrow>
               (let st2 = bind_socket sid rid u st1
                in case exec_q (fails e 2) (recent_query rid) st2 of
                     Inl err \<Rightarrow> (st2, join_failed sid)
                   | Inr ms \<Rightarrow>
                       (st2, [(ToSocket sid, RoomJoined rid (participants r) ms),
                              (ToRoomExcept rid sid, UserJoined u (participants r))]))))"

text \<open>send-message (lines 105 to 132).\<close>

definition send_message ::
  "env \<Rightarrow> string \<Rightarrow> string \<Rightarrow> string \<Rightarrow> string \<Rightarrow> state \<Rightarrow> state \<times> emit list" where
  "send_message e sid rid sndr txt st =
     (let m = \<lparr>mid = new_id e, roomId = rid, sender = sndr, msg_text = txt,
               timestamp = now e\<rparr>
      in case Message_save (fails e 0) m st of
           Inl err \<Rightarrow> (st, [(ToSocket sid, ErrorEv ''Failed to send message'')])
         | Inr st' \<Rightarrow>
             (st', [(ToRoom rid, NewMessage (mid m) rid sndr txt (timestamp m))]))"

text \<open>typing (lines 135 to 140).\<close>

definition typing :: "string \<Rightarrow> string \<Rightarrow> string \<Rightarrow> bool \<Rightarrow> state \<Rightarrow> state \<times> emit list" where
  "typing sid rid u b st = (st, [(ToRoomExcept rid sid, UserTyping u b)])"

text \<open>disconnect (lines 143 to 164). The test \<open>socket.roomId && socket.username\<close>
  is false for an undefined field and for the empty string. Place 0 is the lookup,
  place 1 the delete or the save; a throw is logged and nothing else happens.\<close>

definition leave_room ::
  "env \<Rightarrow> string \<Rightarrow> string \<Rightarrow> string \<Rightarrow> room \<Rightarrow> state \<Rightarrow> state \<times> emit list" where
  "leave_room e sid r u rm st =
     (let ps = filter (\<lambda>p. p \<noteq> u) (participants rm)
      in if length ps = 0 then
           (case Room_deleteOne (fails e 1) r st of
              Inl err \<Rightarrow> (st, [])
            | Inr st' \<Rightarrow> (st', []))
         else
           (case Room_save (fails e 1) r (rm\<lparr>participants := ps\<rparr>) st of
              Inl err \<Rightarrow> (st, [])
            | Inr st' \<Rightarrow> (st', [(ToRoomExcept r sid, UserLeft u ps)])))"

definition disconnect :: "env \<Rightarrow> string \<Rightarrow> state \<Rightarrow> state \<times> emit list" where
  "disconnect e sid st =
     (case sock_roomId (socks st sid) of
        None \<Rightarrow> (st, [])
      | Some r \<Rightarrow>
          (case sock_username (socks st sid) of
             None \<Rightarrow> (st, [])
           | Some u \<Rightarrow>
               if r \<noteq> [] \<and> u \<noteq> [] then
                 (case Room_findOne (fails e 0) r st of
                    Inl err \<Rightarrow> (st, [])
                  | Inr None \<Rightarrow> (st, [])
                  | Inr (Some rm) \<Rightarrow> leave_room e sid r u rm st)
               else (st, [])))"

subsection \<open>REST routes\<close>

datatype response =
    RoomJson string room
  | MessagesJson "message list"
  | ErrorJson nat string

text \<open>GET /api/rooms/:roomId (lines 170 to 180).\<close>

definition get_room :: "env \<Rightarrow> string \<Rightarrow> state \<Rightarrow> response" where
  "get_room e rid st =
     (case Room_findOne (fails e 0) rid st of
        Inl err \<Rightarrow> ErrorJson 500 ''Server error''
      | Inr None \<Rightarrow> ErrorJson 404 ''Room not found''
      | Inr (Some rm) \<Rightarrow> RoomJson rid rm)"

text \<open>GET /api/rooms/:roomId/messages (lines 182 to 190).\<close>

definition get_room_messages :: "env \<Rightarrow> string \<Rightarrow> state \<Rightarrow> response" where
  "get_room_messages e rid st =
     (case exec_q (fails e 0) (sort_q 1 (Message_find rid)) st of
        Inl err \<Rightarrow> ErrorJson 500 ''Server error''
      | Inr ms \<Rightarrow> MessagesJson ms)"


subsection \<open>The reply of join-room and runs of join-room\<close>

text \<open>The \<open>messages\<close> field of the room-joined event among the emitted events.\<close>

fun reply_messages :: "emit list \<Rightarrow> message list option" where
  "reply_messages [] = None"
| "reply_messages ((t, RoomJoined r ps ms) # es) = Some ms"
| "reply_messages (x # es) = reply_messages es"

text \<open>The join-time list as the specification words it: sort descending, keep the
  first \<open>n\<close>, sort the kept ones ascending. It is compared with what the handler
  replies, not used by it.\<close>

definition spec_most_recent :: "nat \<Rightarrow> message list \<Rightarrow> message list" where
  "spec_most_recent n ms =
     sort_key timestamp (take n (sort_key (\<lambda>m. - timestamp m) ms))"

text \<open>A join-room call: what it reads from outside, the connection, the username.\<close>

record join_call =
  call_env :: env
  call_sid :: string
  call_user :: string

text \<open>A call succeeded when it emitted no error event. A run of calls on one roomId
  is \<open>None\<close> as soon as one of them did not succeed.\<close>

definition succeeded :: "emit list \<Rightarrow> bool" where
  "succeeded es = (\<not> list_ex is_error es)"

fun run_joins :: "string \<Rightarrow> join_call list \<Rightarrow> state \<Rightarrow> state option" where
  "run_joins rid [] st = Some st"
| "run_joins rid (c # cs) st =
     (case join_room (call_env c) (call_sid c) rid (call_user c) st of
        (st', es) \<Rightarrow> if succeeded es then run_joins rid cs st' else None)"

subsection \<open>Concrete inputs\<close>

definition env_ok :: env where
  "env_ok = \<lparr>now = 1000, new_id = 7, fails = (\<lambda>k. False)\<rparr>"

definition env_down :: env where
  "env_down = \<lparr>now = 1000, new_id = 7, fails = (\<lambda>k. True)\<rparr>"

definition st_empty :: state where
  "st_empty = \<lparr>messages = [], rooms = Map.empty, members = (\<lambda>r. {}),
                socks = (\<lambda>s. \<lparr>sock_roomId = None, sock_username = None\<rparr>)\<rparr>"

definition demo_msg :: "string \<Rightarrow> nat \<Rightarrow> message" where
  "demo_msg rid n = \<lparr>mid = n, roomId = rid, sender = ''alice'', msg_text = ''hi'',
                     timestamp = int n\<rparr>"

definition st_msgs :: "nat \<Rightarrow> state" where
  "st_msgs n = st_empty\<lparr>messages := map (demo_msg ''r1'') [0..<n]\<rparr>"

definition st_alice :: state where
  "st_alice = fst (join_room env_ok ''s1'' ''r1'' ''alice'' st_empty)"

definition st_alice_bob :: state where
  "st_alice_bob = fst (join_room env_ok ''s2'' ''r1'' ''bob'' st_alice)"

definition st_anon :: state where
  "st_anon = fst (join_room env_ok ''s1'' ''r1'' [] st_empty)"

definition st_anon_bob :: state where
  "st_anon_bob = fst (join_room env_ok ''s2'' ''r1'' ''bob'' st_anon)"

definition st_two_rooms :: state where
  "st_two_rooms =
     st_alice\<lparr>messages := [demo_msg ''r1'' 1, demo_msg ''r2'' 2, demo_msg ''r1'' 3]\<rparr>"

definition call_alice :: join_call where
  "call_alice = \<lparr>call_env = env_ok, call_sid = ''s1'', call_user = ''alice''\<rparr>"

definition call_bob :: join_call where
  "call_bob = \<lparr>call_env = env_ok, call_sid = ''s2'', call_user = ''bob''\<rparr>"

definition st_orphan :: state where
  "st_orphan = st_two_rooms\<lparr>rooms := Map.empty\<rparr>"

definition msg_hi :: message where
  "msg_hi = \<lparr>mid = 7, roomId = ''r1'', sender = ''alice'', msg_text = ''hi'', timestamp = 1000\<rparr>"

subsection \<open>The invariant of the Room collection\<close>

text \<open>No participant list holds a username twice.\<close>

definition rooms_distinct :: "state \<Rightarrow> bool" where
  "rooms_distinct st = (\<forall>r rm. rooms st r = Some rm \<longrightarrow> distinct (participants rm))"

section \<open>Properties\<close>

subsection \<open>Store calls and the join-room handler\<close>

lemma exec_recent:
  "exec_q False (recent_query rid) st =
     Inr (take 50 (sort_key timestamp (filter (\<lambda>m. roomId m = rid) (messages st))))"
  by (simp add: exec_q_def recent_query_def sort_q_def limit_q_def Message_find_def
      ordered_def limited_def)

lemma exec_all:
  "exec_q False (sort_q 1 (Message_find rid)) st =
     Inr (sort_key timestamp (filter (\<lambda>m. roomId m = rid) (messages st)))"
  by (simp add: exec_q_def sort_q_def Message_find_def ordered_def limited_def)

lemma exec_q_bad: "exec_q True q st = Inl StoreError"
  by (simp add: exec_q_def)

lemma bind_socket_store:
  "messages (bind_socket sid rid u st) = messages st"
  "rooms (bind_socket sid rid u st) = rooms st"
  by (simp_all add: bind_socket_def)

lemma Room_save_Inr:
  "Room_save b rid r st = Inr st' \<longleftrightarrow>
     \<not> b \<and> rid \<noteq> [] \<and> st' = st\<lparr>rooms := (rooms st)(rid \<mapsto> r)\<rparr>"
  by (auto simp: Room_save_def)

lemma find_or_create_Inr:
  assumes "find_or_create e rid u (rooms st rid) st = Inr (r, st1)"
  shows "messages st1 = messages st"
    and "rooms st1 rid = Some r"
    and "\<And>k. k \<noteq> rid \<Longrightarrow> rooms st1 k = rooms st k"
    and "members st1 = members st" and "socks st1 = socks st"
    and "rooms st rid = None \<Longrightarrow> participants r = [u]"
    and "rooms st rid = Some r0 \<Longrightarrow> u \<in> set (participants r0) \<Longrightarrow> r = r0 \<and> st1 = st"
    and "rooms st rid = Some r0 \<Longrightarrow> u \<notin> set (participants r0) \<Longrightarrow>
           r = r0\<lparr>participants := participants r0 @ [u]\<rparr>"
  using assms
  by (auto simp: find_or_create_def Let_def Room_save_Inr
      split: option.splits sum.splits if_splits)

lemma join_room_ok:
  assumes "join_room e sid rid u st = (st', es)" and "succeeded es"
  shows "\<exists>r st1. find_or_create e rid u (rooms st rid) st = Inr (r, st1) \<and>
        st' = bind_socket sid rid u st1 \<and>
        es = [(ToSocket sid, RoomJoined rid (participants r)
                 (take 50 (sort_key timestamp (filter (\<lambda>m. roomId m = rid) (messages st))))),
              (ToRoomExcept rid sid, UserJoined u (participants r))]"
proof -
  from assms have f0: "\<not> fails e 0"
    by (auto simp: join_room_def Room_findOne_def succeeded_def join_failed_def)
  with assms obtain r st1 where foc: "find_or_create e rid u (rooms st rid) st = Inr (r, st1)"
    by (auto simp: join_room_def Room_findOne_def succeeded_def join_failed_def split: sum.splits)
  from assms f0 foc have f2: "\<not> fails e 2"
    by (auto simp: join_room_def Room_findOne_def succeeded_def join_failed_def Let_def exec_q_bad)
  from find_or_create_Inr(1)[OF foc] have m: "messages st1 = messages st" .
  from assms(1) f0 f2 foc m show ?thesis
    by (auto simp: join_room_def Room_findOne_def Let_def exec_recent bind_socket_store)
qed

lemma join_room_reply:
  assumes "reply_messages (snd (join_room e sid rid u st)) = Some ms"
  shows "ms = take 50 (sort_key timestamp (filter (\<lambda>m. roomId m = rid) (messages st)))"
proof -
  obtain st' es where j: "join_room e sid rid u st = (st', es)" by (cases "join_room e sid rid u st")
  with assms have r: "reply_messages es = Some ms" by simp
  have "succeeded es"
  proof (rule ccontr)
    assume "\<not> succeeded es"
    with j have "es = join_failed sid"
      by (auto simp: join_room_def succeeded_def Let_def join_failed_def split: sum.splits prod.splits)
    with r show False by (simp add: join_failed_def)
  qed
  from join_room_ok[OF j this] r show ?thesis by auto
qed


lemma join_room_reply_capped:
  assumes "reply_messages (snd (join_room e sid rid u st)) = Some ms"
  shows "length ms \<le> 50 \<and> sorted (map timestamp ms)
       \<and> set ms \<subseteq> {m \<in> set (messages st). roomId m = rid}"
proof -
  let ?all = "sort_key timestamp (filter (\<lambda>m. roomId m = rid) (messages st))"
  from join_room_reply[OF assms] have ms: "ms = take 50 ?all" .
  have "sorted (map timestamp ?all)" by simp
  then have "sorted (take 50 (map timestamp ?all))" by (rule sorted_wrt_take)
  then have "sorted (map timestamp ms)" by (simp add: ms take_map)
  moreover have "set ms \<subseteq> set ?all" unfolding ms by (rule set_take_subset)
  ultimately show ?thesis by (auto simp: ms)
qed


lemma join_room_rooms:
  assumes "join_room e sid rid u st = (st', es)" and "succeeded es"
  shows "rooms st rid = None \<Longrightarrow> \<exists>r. rooms st' rid = Some r \<and> participants r = [u]"
    and "rooms st rid = Some r0 \<Longrightarrow> u \<notin> set (participants r0) \<Longrightarrow>
           rooms st' rid = Some (r0\<lparr>participants := participants r0 @ [u]\<rparr>)"
proof -
  from join_room_ok[OF assms] obtain r st1 where
    foc: "find_or_create e rid u (rooms st rid) st = Inr (r, st1)"
    and st': "st' = bind_socket sid rid u st1" by blast
  show "rooms st rid = None \<Longrightarrow> \<exists>r. rooms st' rid = Some r \<and> participants r = [u]"
    using find_or_create_Inr(2,6)[OF foc] st' by (simp add: bind_socket_store)
  show "rooms st rid = Some r0 \<Longrightarrow> u \<notin> set (participants r0) \<Longrightarrow>
           rooms st' rid = Some (r0\<lparr>participants := participants r0 @ [u]\<rparr>)"
    using find_or_create_Inr(2,8)[OF foc] st' by (simp add: bind_socket_store)
qed

lemma run_joins_append:
  "rooms st rid = Some r0 \<Longrightarrow> distinct (participants r0 @ map call_user cs) \<Longrightarrow>
   run_joins rid cs st = Some st' \<Longrightarrow>
   \<exists>r. rooms st' rid = Some r \<and> participants r = participants r0 @ map call_user cs"
proof (induction cs arbitrary: st r0)
  case Nil
  then show ?case by simp
next
  case (Cons c cs)
  obtain st1 es where j: "join_room (call_env c) (call_sid c) rid (call_user c) st = (st1, es)"
    by (cases "join_room (call_env c) (call_sid c) rid (call_user c) st")
  with Cons.prems(3) have ok: "succeeded es" and rest: "run_joins rid cs st1 = Some st'"
    by (auto split: if_splits)
  from Cons.prems(2) have notin: "call_user c \<notin> set (participants r0)" by auto
  from join_room_rooms(2)[OF j ok Cons.prems(1) notin]
  have r1: "rooms st1 rid = Some (r0\<lparr>participants := participants r0 @ [call_user c]\<rparr>)" .
  from Cons.prems(2)
  have d: "distinct (participants (r0\<lparr>participants := participants r0 @ [call_user c]\<rparr>) @ map call_user cs)"
    by simp
  from Cons.IH[OF r1 d rest] show ?case by simp
qed

subsection \<open>The disconnect handler\<close>

lemma leave_room_last:
  assumes "filter (\<lambda>p. p \<noteq> u) (participants rm) = []" and "\<not> fails e 1"
  shows "leave_room e sid r u rm st = (st\<lparr>rooms := (rooms st)(r := None)\<rparr>, [])"
  using assms by (simp add: leave_room_def Room_deleteOne_def)

lemma leave_room_rest:
  assumes "filter (\<lambda>p. p \<noteq> u) (participants rm) \<noteq> []" and "\<not> fails e 1" and "r \<noteq> []"
  shows "leave_room e sid r u rm st =
     (st\<lparr>rooms := (rooms st)(r \<mapsto> rm\<lparr>participants := filter (\<lambda>p. p \<noteq> u) (participants rm)\<rparr>)\<rparr>,
      [(ToRoomExcept r sid, UserLeft u (filter (\<lambda>p. p \<noteq> u) (participants rm)))])"
  using assms by (simp add: leave_room_def Room_save_def Let_def)

lemma disconnect_bound:
  assumes "sock_roomId (socks st sid) = Some r" and "sock_username (socks st sid) = Some u"
    and "r \<noteq> []" and "u \<noteq> []" and "rooms st r = Some rm" and "\<not> fails e 0"
  shows "disconnect e sid st = leave_room e sid r u rm st"
  using assms by (simp add: disconnect_def Room_findOne_def)

lemma disconnect_empty_username:
  "sock_username (socks st sid) = Some [] \<Longrightarrow> disconnect e sid st = (st, [])"
  by (simp add: disconnect_def split: option.splits)

lemma filter_other_remove1:
  "distinct ps \<Longrightarrow> filter (\<lambda>p. p \<noteq> u) ps = remove1 u ps"
  by (induction ps) (auto simp: remove1_idem)

text \<open>What disconnect does for a connection bound to a non-empty roomId and a
  non-empty username, when its store calls succeed: the last participant takes the
  Room with it, any other leaves the Room with the remaining participants.\<close>

lemma disconnect_last_nonempty:
  assumes "sock_roomId (socks st sid) = Some r" and "sock_username (socks st sid) = Some u"
    and "r \<noteq> []" and "u \<noteq> []"
    and "rooms st r = Some rm" and "participants rm = [u]"
    and "\<not> fails e 0" and "\<not> fails e 1" and "\<not> fails e' 0"
  shows "rooms (fst (disconnect e sid st)) r = None
       \<and> get_room e' r (fst (disconnect e sid st)) = ErrorJson 404 ''Room not found''"
proof -
  from assms(6) have "filter (\<lambda>p. p \<noteq> u) (participants rm) = []" by simp
  from leave_room_last[OF this assms(8)] disconnect_bound[OF assms(1-5,7)]
  have "disconnect e sid st = (st\<lparr>rooms := (rooms st)(r := None)\<rparr>, [])" by simp
  with assms(9) show ?thesis by (simp add: get_room_def Room_findOne_def)
qed

lemma disconnect_rest_nonempty:
  assumes "sock_roomId (socks st sid) = Some r" and "sock_username (socks st sid) = Some u"
    and "r \<noteq> []" and "u \<noteq> []"
    and "rooms st r = Some rm" and "\<exists>p \<in> set (participants rm). p \<noteq> u"
    and "\<not> fails e 0" and "\<not> fails e 1"
  shows "disconnect e sid st =
     (st\<lparr>rooms := (rooms st)(r \<mapsto> rm\<lparr>participants := filter (\<lambda>p. p \<noteq> u) (participants rm)\<rparr>)\<rparr>,
      [(ToRoomExcept r sid, UserLeft u (filter (\<lambda>p. p \<noteq> u) (participants rm)))])"
proof -
  from assms(6) have ne: "filter (\<lambda>p. p \<noteq> u) (participants rm) \<noteq> []"
    by (auto simp: filter_empty_conv)
  from leave_room_rest[OF ne assms(8,3)] disconnect_bound[OF assms(1-5,7)]
  show ?thesis by simp
qed

subsection \<open>Participant lists stay free of duplicates\<close>

text \<open>Every handler keeps the invariant, also when a store call throws half way.\<close>

lemma find_or_create_distinct:
  assumes "find_or_create e rid u (rooms st rid) st = Inr (r, st1)" and "rooms_distinct st"
  shows "rooms_distinct st1"
  using assms
  by (auto simp: find_or_create_def Let_def Room_save_Inr rooms_distinct_def
      split: option.splits sum.splits if_splits)

lemma bind_socket_distinct: "rooms_distinct (bind_socket sid rid u st) = rooms_distinct st"
  by (simp add: rooms_distinct_def bind_socket_store)

lemma join_room_distinct:
  assumes "rooms_distinct st"
  shows "rooms_distinct (fst (join_room e sid rid u st))"
proof (cases "fails e 0")
  case True
  with assms show ?thesis by (simp add: join_room_def Room_findOne_def)
next
  case False
  show ?thesis
  proof (cases "find_or_create e rid u (rooms st rid) st")
    case (Inl a)
    with False assms show ?thesis by (simp add: join_room_def Room_findOne_def)
  next
    case (Inr p)
    obtain r st1 where p: "p = (r, st1)" by (cases p)
    from find_or_create_distinct[OF Inr[unfolded p] assms] have "rooms_distinct st1" .
    with False Inr p show ?thesis
      by (simp add: join_room_def Room_findOne_def Let_def bind_socket_distinct
          split: sum.splits)
  qed
qed

lemma disconnect_distinct:
  assumes "rooms_distinct st"
  shows "rooms_distinct (fst (disconnect e sid st))"
  using assms
  by (auto simp: disconnect_def leave_room_def Room_findOne_def Room_deleteOne_def
      Room_save_def Let_def rooms_distinct_def split: option.splits sum.splits if_splits)

lemma other_handlers_distinct:
  assumes "rooms_distinct st"
  shows "rooms_distinct (fst (send_message e sid rid sndr txt st))"
    and "rooms_distinct (fst (clear_room_chat e sid rid st))"
    and "rooms_distinct (fst (typing sid rid u b st))"
  using assms
  by (auto simp: send_message_def clear_room_chat_def typing_def Message_save_def
      Message_deleteMany_def Let_def rooms_distinct_def)

lemma st_empty_distinct: "rooms_distinct st_empty"
  by (simp add: rooms_distinct_def st_empty_def)

section \<open>The claims\<close>

text \<open>C1. When join-room succeeds, the \<open>messages\<close> field of the room-joined reply
  holds the 50 most recent Messages of the room in ascending timestamp order, and at
  most 50 of them. The handler replies with at most 50 messages in ascending order
  (\<open>join_room_reply_capped\<close>), but they are the 50 oldest: with 51 messages of
  timestamps 0 to 50 in the room the reply holds the timestamps 0 to 49, where the 50
  most recent are 1 to 50.\<close>

theorem join_room_reply_oldest_51:
  "map_option (map timestamp)
      (reply_messages (snd (join_room env_ok ''s1'' ''r1'' ''bob'' (st_msgs 51))))
     = Some (map int [0..<50])
   \<and> map timestamp
        (spec_most_recent 50 (filter (\<lambda>m. roomId m = ''r1'') (messages (st_msgs 51))))
     = map int [1..<51]
   \<and> reply_messages (snd (join_room env_ok ''s1'' ''r1'' ''bob'' (st_msgs 51)))
     \<noteq> Some (spec_most_recent 50
               (filter (\<lambda>m. roomId m = ''r1'') (messages (st_msgs 51))))"
  by code_simp

text \<open>C2. A run of successful join-room calls with pairwise distinct usernames on a
  roomId that has no Room record: the first call creates the Room with the participant
  list \<open>[username]\<close>, and after the run the participant list is the list of the
  usernames in the order of the calls.\<close>

theorem join_room_sequence:
  assumes "rooms st rid = None"
    and "distinct (map call_user (c # cs))"
    and "run_joins rid (c # cs) st = Some st'"
  shows "(\<exists>r. rooms (fst (join_room (call_env c) (call_sid c) rid (call_user c) st)) rid = Some r
              \<and> participants r = [call_user c])
       \<and> (\<exists>r. rooms st' rid = Some r \<and> participants r = map call_user (c # cs))"
proof -
  obtain st1 es where j: "join_room (call_env c) (call_sid c) rid (call_user c) st = (st1, es)"
    by (cases "join_room (call_env c) (call_sid c) rid (call_user c) st")
  with assms(3) have ok: "succeeded es" and rest: "run_joins rid cs st1 = Some st'"
    by (auto split: if_splits)
  from join_room_rooms(1)[OF j ok assms(1)] obtain r1 where
    r1: "rooms st1 rid = Some r1" "participants r1 = [call_user c]" by blast
  from assms(2) r1 have d: "distinct (participants r1 @ map call_user cs)" by simp
  from run_joins_append[OF r1(1) d rest] r1 j show ?thesis by simp
qed

theorem join_room_sequence_witness:
  "rooms st_empty ''r1'' = None
   \<and> distinct (map call_user [call_alice, call_bob])
   \<and> run_joins ''r1'' [call_alice, call_bob] st_empty = Some st_alice_bob
   \<and> map_option participants (rooms st_alice ''r1'') = Some [''alice'']
   \<and> map_option participants (rooms st_alice_bob ''r1'') = Some [''alice'', ''bob'']"
proof -
  have h1: "rooms st_empty ''r1'' = None" by (simp add: st_empty_def)
  have h2: "distinct (map call_user (call_alice # [call_bob]))"
    by (simp add: call_alice_def call_bob_def)
  have s1: "succeeded (snd (join_room env_ok ''s1'' ''r1'' ''alice'' st_empty))" by code_simp
  have s2: "succeeded (snd (join_room env_ok ''s2'' ''r1'' ''bob'' st_alice))" by code_simp
  have h3: "run_joins ''r1'' (call_alice # [call_bob]) st_empty = Some st_alice_bob"
    using s1 s2
    by (simp add: call_alice_def call_bob_def st_alice_bob_def st_alice_def case_prod_beta)
  from join_room_sequence[OF h1 h2 h3] h1 h2 h3 show ?thesis
    by (auto simp: call_alice_def call_bob_def st_alice_def)
qed

text \<open>C3. A Room whose participant list is exactly one username: disconnect of the
  connection bound to that username deletes the Room record, and get-room on that
  roomId then answers 404 with the error Room not found. The handler does so for a
  non-empty username (\<open>disconnect_last_nonempty\<close>). For the empty username it
  does not: join-room accepts it, stores it as the only participant and binds the
  connection to it, the test in disconnect takes the empty string for a connection
  that never joined, and the Room stays, so that get-room answers with the Room.\<close>

theorem disconnect_last_empty_username_keeps_room:
  "succeeded (snd (join_room env_ok ''s1'' ''r1'' [] st_empty))
   \<and> map_option participants (rooms st_anon ''r1'') = Some [[]]
   \<and> sock_roomId (socks st_anon ''s1'') = Some ''r1''
   \<and> sock_username (socks st_anon ''s1'') = Some []
   \<and> disconnect env_ok ''s1'' st_anon = (st_anon, [])
   \<and> map_option participants (rooms (fst (disconnect env_ok ''s1'' st_anon)) ''r1'') = Some [[]]
   \<and> get_room env_ok ''r1'' (fst (disconnect env_ok ''s1'' st_anon))
       = RoomJson ''r1'' \<lparr>participants = [[]], createdAt = 1000\<rparr>
   \<and> get_room env_ok ''r1'' (fst (disconnect env_ok ''s1'' st_anon))
       \<noteq> ErrorJson 404 ''Room not found''"
proof -
  have u: "sock_username (socks st_anon ''s1'') = Some []" by code_simp
  have d: "disconnect env_ok ''s1'' st_anon = (st_anon, [])"
    by (rule disconnect_empty_username[OF u])
  have a: "succeeded (snd (join_room env_ok ''s1'' ''r1'' [] st_empty))" by code_simp
  have b: "map_option participants (rooms st_anon ''r1'') = Some [[]]" by code_simp
  have c: "sock_roomId (socks st_anon ''s1'') = Some ''r1''" by code_simp
  have g: "get_room env_ok ''r1'' st_anon = RoomJson ''r1'' \<lparr>participants = [[]], createdAt = 1000\<rparr>"
    by code_simp
  from a b c u d g show ?thesis by simp
qed

text \<open>C4. A Room with at least two participants: disconnect of a connection bound to
  one of them keeps the Room record, removes exactly that username from the
  participant list, and sends user-left with the username and the new list to the
  other members of the group. The handler does so for a non-empty username
  (\<open>disconnect_rest_nonempty\<close>). For the empty username it does not: after the
  empty username and then bob have joined, disconnect of the first connection leaves
  both in the list and emits nothing.\<close>

theorem disconnect_other_empty_username_keeps_list:
  "succeeded (snd (join_room env_ok ''s1'' ''r1'' [] st_empty))
   \<and> succeeded (snd (join_room env_ok ''s2'' ''r1'' ''bob'' st_anon))
   \<and> map_option participants (rooms st_anon_bob ''r1'') = Some [[], ''bob'']
   \<and> sock_roomId (socks st_anon_bob ''s1'') = Some ''r1''
   \<and> sock_username (socks st_anon_bob ''s1'') = Some []
   \<and> map_option participants (rooms (fst (disconnect env_ok ''s1'' st_anon_bob)) ''r1'')
       = Some [[], ''bob'']
   \<and> snd (disconnect env_ok ''s1'' st_anon_bob) = []"
  by code_simp

text \<open>C5. A successful clear-room-chat leaves no Message with the given roomId in the
  store, keeps every Message of every other roomId as it was, in the same order, adds
  none, and emits room-chat-cleared to the whole group of the room, the caller
  included when it is a member.\<close>

theorem clear_room_chat_messages:
  assumes "\<not> fails e 0"
  shows "(\<forall>m \<in> set (messages (fst (clear_room_chat e sid rid st))). roomId m \<noteq> rid)
       \<and> filter (\<lambda>m. roomId m \<noteq> rid) (messages (fst (clear_room_chat e sid rid st)))
           = filter (\<lambda>m. roomId m \<noteq> rid) (messages st)
       \<and> set (messages (fst (clear_room_chat e sid rid st))) \<subseteq> set (messages st)
       \<and> snd (clear_room_chat e sid rid st) = [(ToRoom rid, RoomChatCleared)]
       \<and> recipients (fst (clear_room_chat e sid rid st)) (ToRoom rid) = members st rid"
  using assms by (auto simp: clear_room_chat_def Message_deleteMany_def)

theorem clear_room_chat_messages_witness:
  "\<not> fails env_ok 0
   \<and> messages st_two_rooms = [demo_msg ''r1'' 1, demo_msg ''r2'' 2, demo_msg ''r1'' 3]
   \<and> messages (fst (clear_room_chat env_ok ''s1'' ''r1'' st_two_rooms)) = [demo_msg ''r2'' 2]
   \<and> snd (clear_room_chat env_ok ''s1'' ''r1'' st_two_rooms) = [(ToRoom ''r1'', RoomChatCleared)]
   \<and> recipients (fst (clear_room_chat env_ok ''s1'' ''r1'' st_two_rooms)) (ToRoom ''r1'')
       = members st_two_rooms ''r1''
   \<and> ''s1'' \<in> members st_two_rooms ''r1''"
proof -
  have h: "\<not> fails env_ok 0" by (simp add: env_ok_def)
  have m: "messages st_two_rooms = [demo_msg ''r1'' 1, demo_msg ''r2'' 2, demo_msg ''r1'' 3]"
    by (simp add: st_two_rooms_def)
  have c: "messages (fst (clear_room_chat env_ok ''s1'' ''r1'' st_two_rooms)) = [demo_msg ''r2'' 2]"
    by code_simp
  have s: "''s1'' \<in> members st_two_rooms ''r1''" by code_simp
  from clear_room_chat_messages[OF h, of "''s1''" "''r1''" st_two_rooms] h m c s
  show ?thesis by simp
qed


text \<open>C6. send-message. When the save succeeds, the new Message with the timestamp
  read from the server clock is appended to the store and new-message with id, roomId,
  sender, text and timestamp goes to the whole group of the room, the sender not
  excluded. When the save throws, the state is unchanged and the only event is an
  error to the sender: no new-message.\<close>

theorem send_message_outcome:
  "(Message_save (fails e 0)
       \<lparr>mid = new_id e, roomId = rid, sender = sndr, msg_text = txt, timestamp = now e\<rparr> st
      = Inr st' \<longrightarrow>
      fst (send_message e sid rid sndr txt st) = st'
      \<and> messages st' = messages st @
            [\<lparr>mid = new_id e, roomId = rid, sender = sndr, msg_text = txt, timestamp = now e\<rparr>]
      \<and> snd (send_message e sid rid sndr txt st)
          = [(ToRoom rid, NewMessage (new_id e) rid sndr txt (now e))]
      \<and> recipients st' (ToRoom rid) = members st rid)
   \<and> (Message_save (fails e 0)
       \<lparr>mid = new_id e, roomId = rid, sender = sndr, msg_text = txt, timestamp = now e\<rparr> st
      = Inl err \<longrightarrow>
      fst (send_message e sid rid sndr txt st) = st
      \<and> snd (send_message e sid rid sndr txt st)
          = [(ToSocket sid, ErrorEv ''Failed to send message'')]
      \<and> \<not> list_ex is_new_message (snd (send_message e sid rid sndr txt st))
      \<and> recipients st (ToSocket sid) = {sid})"
  by (auto simp: send_message_def Message_save_def Let_def)

theorem send_message_outcome_witness:
  "Message_save (fails env_ok 0) msg_hi st_alice
     = Inr (st_alice\<lparr>messages := [msg_hi]\<rparr>)
   \<and> messages (fst (send_message env_ok ''s1'' ''r1'' ''alice'' ''hi'' st_alice)) = [msg_hi]
   \<and> snd (send_message env_ok ''s1'' ''r1'' ''alice'' ''hi'' st_alice)
       = [(ToRoom ''r1'', NewMessage 7 ''r1'' ''alice'' ''hi'' 1000)]
   \<and> ''s1'' \<in> recipients (fst (send_message env_ok ''s1'' ''r1'' ''alice'' ''hi'' st_alice))
                  (ToRoom ''r1'')
   \<and> Message_save (fails env_down 0) msg_hi st_alice = Inl StoreError
   \<and> messages (fst (send_message env_down ''s1'' ''r1'' ''alice'' ''hi'' st_alice)) = []
   \<and> snd (send_message env_down ''s1'' ''r1'' ''alice'' ''hi'' st_alice)
       = [(ToSocket ''s1'', ErrorEv ''Failed to send message'')]"
proof -
  have m: "messages st_alice = []" by code_simp
  have mb: "''s1'' \<in> members st_alice ''r1''" by code_simp
  have ok: "Message_save (fails env_ok 0)
      \<lparr>mid = new_id env_ok, roomId = ''r1'', sender = ''alice'', msg_text = ''hi'',
        timestamp = now env_ok\<rparr> st_alice = Inr (st_alice\<lparr>messages := [msg_hi]\<rparr>)"
    by (simp add: Message_save_def env_ok_def msg_hi_def m)
  have down: "Message_save (fails env_down 0)
      \<lparr>mid = new_id env_down, roomId = ''r1'', sender = ''alice'', msg_text = ''hi'',
        timestamp = now env_down\<rparr> st_alice = Inl StoreError"
    by (simp add: Message_save_def env_down_def)
  have e1: "\<lparr>mid = new_id env_ok, roomId = ''r1'', sender = ''alice'', msg_text = ''hi'',
        timestamp = now env_ok\<rparr> = msg_hi" by (simp add: env_ok_def msg_hi_def)
  have e2: "\<lparr>mid = new_id env_down, roomId = ''r1'', sender = ''alice'', msg_text = ''hi'',
        timestamp = now env_down\<rparr> = msg_hi" by (simp add: env_down_def msg_hi_def)
  from send_message_outcome[of env_ok "''r1''" "''alice''" "''hi''" st_alice
      "st_alice\<lparr>messages := [msg_hi]\<rparr>" "''s1''" StoreError] ok
  have A: "fst (send_message env_ok ''s1'' ''r1'' ''alice'' ''hi'' st_alice) = st_alice\<lparr>messages := [msg_hi]\<rparr>"
    "snd (send_message env_ok ''s1'' ''r1'' ''alice'' ''hi'' st_alice)
       = [(ToRoom ''r1'', NewMessage (new_id env_ok) ''r1'' ''alice'' ''hi'' (now env_ok))]"
    by simp_all
  from send_message_outcome[of env_down "''r1''" "''alice''" "''hi''" st_alice
      st_alice "''s1''" StoreError] down
  have B: "fst (send_message env_down ''s1'' ''r1'' ''alice'' ''hi'' st_alice) = st_alice"
    "snd (send_message env_down ''s1'' ''r1'' ''alice'' ''hi'' st_alice)
       = [(ToSocket ''s1'', ErrorEv ''Failed to send message'')]"
    by simp_all
  from A B ok down e1 e2 m mb show ?thesis by (simp add: env_ok_def)
qed

text \<open>C7. join-room with a username that the Room's participant list already holds
  leaves the Room record as it was, whatever the store calls do.\<close>

theorem rejoin_keeps_participants:
  assumes "rooms st rid = Some r0" and "u \<in> set (participants r0)"
  shows "rooms (fst (join_room e sid rid u st)) rid = Some r0"
  using assms
  by (auto simp: join_room_def Room_findOne_def find_or_create_def Let_def bind_socket_store
      split: sum.splits prod.splits)

theorem rejoin_keeps_participants_witness:
  "rooms st_alice_bob ''r1'' = Some \<lparr>participants = [''alice'', ''bob''], createdAt = 1000\<rparr>
   \<and> ''alice'' \<in> set [''alice'', ''bob'']
   \<and> rooms (fst (join_room env_ok ''s3'' ''r1'' ''alice'' st_alice_bob)) ''r1''
       = Some \<lparr>participants = [''alice'', ''bob''], createdAt = 1000\<rparr>"
proof -
  have h1: "rooms st_alice_bob ''r1''
      = Some \<lparr>participants = [''alice'', ''bob''], createdAt = 1000\<rparr>" by code_simp
  have h2: "''alice'' \<in> set (participants \<lparr>participants = [''alice'', ''bob''], createdAt = 1000\<rparr>)"
    by simp
  from rejoin_keeps_participants[OF h1 h2] h1 show ?thesis by simp
qed

text \<open>C8. When the store answers, get-room-messages returns every Message of the
  room, each as often as the store holds it, in ascending timestamp order and with no
  cap, whereas the reply of join-room never holds more than 50.\<close>

theorem get_room_messages_all:
  assumes "\<not> fails e 0"
  shows "(\<exists>ms. get_room_messages e rid st = MessagesJson ms
            \<and> mset ms = mset (filter (\<lambda>m. roomId m = rid) (messages st))
            \<and> length ms = length (filter (\<lambda>m. roomId m = rid) (messages st))
            \<and> sorted (map timestamp ms))
       \<and> (\<forall>e' sid u ms'. reply_messages (snd (join_room e' sid rid u st)) = Some ms'
              \<longrightarrow> length ms' \<le> 50)"
  using assms join_room_reply_capped by (simp add: get_room_messages_def exec_all)

theorem get_room_messages_all_witness:
  "\<not> fails env_ok 0
   \<and> get_room_messages env_ok ''r1'' (st_msgs 51) = MessagesJson (map (demo_msg ''r1'') [0..<51])
   \<and> length (map (demo_msg ''r1'') [0..<51]) = 51
   \<and> sorted (map timestamp (map (demo_msg ''r1'') [0..<51]))
   \<and> map_option length
        (reply_messages (snd (join_room env_ok ''s1'' ''r1'' ''bob'' (st_msgs 51)))) = Some 50"
proof -
  have h: "\<not> fails env_ok 0" by (simp add: env_ok_def)
  have g: "get_room_messages env_ok ''r1'' (st_msgs 51)
      = MessagesJson (map (demo_msg ''r1'') [0..<51])" by code_simp
  have j: "map_option length
        (reply_messages (snd (join_room env_ok ''s1'' ''r1'' ''bob'' (st_msgs 51)))) = Some 50"
    by code_simp
  from get_room_messages_all[OF h, of "''r1''" "st_msgs 51"] g
  have "sorted (map timestamp (map (demo_msg ''r1'') [0..<51]))" by auto
  with h g j show ?thesis by simp
qed

text \<open>C9. disconnect of a connection whose roomId and username fields are unset
  changes no Room and no Message and emits nothing. disconnect of a bound connection
  whose Room record is gone changes no Room and no Message and emits no user-left.\<close>

theorem disconnect_without_room:
  "(sock_roomId (socks st sid) = None \<and> sock_username (socks st sid) = None \<longrightarrow>
      rooms (fst (disconnect e sid st)) = rooms st
      \<and> messages (fst (disconnect e sid st)) = messages st
      \<and> snd (disconnect e sid st) = [])
   \<and> (sock_roomId (socks st sid) = Some r \<and> sock_username (socks st sid) = Some u
        \<and> rooms st r = None \<longrightarrow>
      rooms (fst (disconnect e sid st)) = rooms st
      \<and> messages (fst (disconnect e sid st)) = messages st
      \<and> \<not> list_ex is_user_left (snd (disconnect e sid st)))"
  by (simp add: disconnect_def Room_findOne_def)

theorem disconnect_without_room_witness:
  "sock_roomId (socks st_two_rooms ''s9'') = None
   \<and> sock_username (socks st_two_rooms ''s9'') = None
   \<and> rooms (fst (disconnect env_ok ''s9'' st_two_rooms)) = rooms st_two_rooms
   \<and> messages (fst (disconnect env_ok ''s9'' st_two_rooms)) = messages st_two_rooms
   \<and> snd (disconnect env_ok ''s9'' st_two_rooms) = []
   \<and> sock_roomId (socks st_orphan ''s1'') = Some ''r1''
   \<and> sock_username (socks st_orphan ''s1'') = Some ''alice''
   \<and> rooms st_orphan ''r1'' = None
   \<and> rooms (fst (disconnect env_ok ''s1'' st_orphan)) = rooms st_orphan
   \<and> messages (fst (disconnect env_ok ''s1'' st_orphan)) = messages st_orphan
   \<and> \<not> list_ex is_user_left (snd (disconnect env_ok ''s1'' st_orphan))"
proof -
  have a1: "sock_roomId (socks st_two_rooms ''s9'') = None" by code_simp
  have a2: "sock_username (socks st_two_rooms ''s9'') = None" by code_simp
  have b1: "sock_roomId (socks st_orphan ''s1'') = Some ''r1''" by code_simp
  have b2: "sock_username (socks st_orphan ''s1'') = Some ''alice''" by code_simp
  have b3: "rooms st_orphan ''r1'' = None" by (simp add: st_orphan_def)
  from disconnect_without_room[of st_two_rooms "''s9''" env_ok "''r1''" "''alice''"]
    disconnect_without_room[of st_orphan "''s1''" env_ok "''r1''" "''alice''"]
    a1 a2 b1 b2 b3
  show ?thesis by simp
qed

text \<open>C10. clear-room-chat, successful or failed, leaves the Room collection as it
  was: every Room record, with its participant list and createdAt.\<close>

theorem clear_room_chat_rooms:
  "rooms (fst (clear_room_chat e sid rid st)) = rooms st"
  by (simp add: clear_room_chat_def Message_deleteMany_def)

theorem clear_room_chat_rooms_witness:
  "rooms (fst (clear_room_chat env_ok ''s1'' ''r1'' st_two_rooms)) ''r1''
     = Some \<lparr>participants = [''alice''], createdAt = 1000\<rparr>
   \<and> rooms (fst (clear_room_chat env_down ''s1'' ''r1'' st_two_rooms)) ''r1''
     = Some \<lparr>participants = [''alice''], createdAt = 1000\<rparr>
   \<and> snd (clear_room_chat env_down ''s1'' ''r1'' st_two_rooms)
     = [(ToSocket ''s1'', ErrorEv ''Failed to clear chat'')]"
proof -
  have r: "rooms st_two_rooms ''r1'' = Some \<lparr>participants = [''alice''], createdAt = 1000\<rparr>"
    by code_simp
  have d: "snd (clear_room_chat env_down ''s1'' ''r1'' st_two_rooms)
     = [(ToSocket ''s1'', ErrorEv ''Failed to clear chat'')]"
    by (simp add: clear_room_chat_def Message_deleteMany_def env_down_def)
  from clear_room_chat_rooms[of env_ok "''s1''" "''r1''" st_two_rooms]
    clear_room_chat_rooms[of env_down "''s1''" "''r1''" st_two_rooms] r d
  show ?thesis by simp
qed

end
